theory Spec2Isabelle
  imports Complex_Main
begin

section \<open>The oscilloscope CSV viewer: loader, statistics and export\<close>

text \<open>
  A shallow embedding of class \<open>DataHandler\<close> of \<^verbatim>\<open>data_handler.py\<close>. The methods keep
  their names. What the methods call in the Python library and in pandas is either
  written out below (strings, \<open>float\<close>, column selection, the statistics of a
  numeric column) or taken from an environment record (opening a file,
  \<open>pd.read_csv\<close>, the coercion of one cell by \<open>pd.to_numeric\<close>), so that the
  theorems about loading hold whatever the file system and the CSV parser do.
  Floating-point numbers are modelled by the reals they denote: rounding, overflow and
  infinite values are outside the model.
\<close>

subsection \<open>Exceptions\<close>

text \<open>
  A Python exception is its class name and the text \<open>str(e)\<close> gives. A method that
  may raise returns \<open>excepcion + 'a\<close>, with \<open>Inl\<close> for the raise.
\<close>

datatype excepcion = Exc (clase: string) (mensaje: string)

subsection \<open>Strings\<close>

text \<open>The ASCII characters for which \<open>str.isspace\<close> holds; \<open>str.strip()\<close> removes them
  at both ends.\<close>

definition es_espacio :: "char \<Rightarrow> bool" where
  "es_espacio c \<longleftrightarrow>
     c \<in> set [CHR 0x09, CHR 0x0A, CHR 0x0B, CHR 0x0C, CHR 0x0D,
              CHR 0x1C, CHR 0x1D, CHR 0x1E, CHR 0x1F, CHR 0x20]"

definition strip :: "string \<Rightarrow> string" where
  "strip s = rev (dropWhile es_espacio (rev (dropWhile es_espacio s)))"

text \<open>\<open>s.split(',')[0]\<close>: the text before the first comma, all of \<open>s\<close> when it has none.\<close>

definition primer_campo :: "string \<Rightarrow> string" where
  "primer_campo s = takeWhile (\<lambda>c. c \<noteq> CHR '','') s"

subsection \<open>The strings \<open>float\<close> accepts\<close>

text \<open>
  \<open>float(s)\<close> raises \<open>ValueError\<close> unless \<open>s\<close>, with the white space around it
  removed, is an optional sign followed by \<open>inf\<close>, \<open>infinity\<close> or \<open>nan\<close> in any
  letter case, or by a decimal number: digits with an optional fraction and an optional
  exponent, where single underscores may stand between digits. The detector only asks
  whether the conversion succeeds, so the model is the recogniser \<open>float_ok\<close>.
\<close>

definition es_digito :: "char \<Rightarrow> bool" where
  "es_digito c \<longleftrightarrow> c \<in> set ''0123456789''"

fun digitos_ok :: "string \<Rightarrow> bool" where
  "digitos_ok [] = False"
| "digitos_ok [c] = es_digito c"
| "digitos_ok (c # d # cs) =
     (es_digito c \<and> (if d = CHR ''_'' then digitos_ok cs else digitos_ok (d # cs)))"

definition minuscula :: "char \<Rightarrow> char" where
  "minuscula c =
     (case map_of (zip ''ABCDEFGHIJKLMNOPQRSTUVWXYZ'' ''abcdefghijklmnopqrstuvwxyz'') c of
        Some d \<Rightarrow> d | None \<Rightarrow> c)"

definition sin_signo :: "string \<Rightarrow> string" where
  "sin_signo s =
     (case s of [] \<Rightarrow> [] | c # cs \<Rightarrow> if c = CHR ''+'' \<or> c = CHR ''-'' then cs else s)"

definition es_exp :: "char \<Rightarrow> bool" where
  "es_exp c \<longleftrightarrow> c = CHR ''e'' \<or> c = CHR ''E''"

definition mantisa_ok :: "string \<Rightarrow> bool" where
  "mantisa_ok m =
     (let ent = takeWhile (\<lambda>c. c \<noteq> CHR ''.'') m;
          resto = dropWhile (\<lambda>c. c \<noteq> CHR ''.'') m
      in case resto of
           [] \<Rightarrow> digitos_ok ent
         | _ # dec \<Rightarrow>
             (ent = [] \<or> digitos_ok ent) \<and> (dec = [] \<or> digitos_ok dec)
             \<and> \<not> (ent = [] \<and> dec = []))"

definition decimal_ok :: "string \<Rightarrow> bool" where
  "decimal_ok s =
     (let m = takeWhile (\<lambda>c. \<not> es_exp c) s;
          resto = dropWhile (\<lambda>c. \<not> es_exp c) s
      in case resto of
           [] \<Rightarrow> mantisa_ok m
         | _ # ex \<Rightarrow> mantisa_ok m \<and> digitos_ok (sin_signo ex))"

definition float_ok :: "string \<Rightarrow> bool" where
  "float_ok s =
     (let t = sin_signo (strip s)
      in map minuscula t \<in> set [''inf'', ''infinity'', ''nan''] \<or> decimal_ok t)"

subsection \<open>Files\<close>

text \<open>
  What \<open>open(ruta, 'r')\<close> gives: it raises, or it yields the lines of the file one by
  one. Reading may itself raise (an undecodable byte) after some lines have been
  delivered: \<open>fallo\<close> is that exception, raised when the reader asks for the line after
  the last of \<open>lineas\<close>.
\<close>

record archivo =
  lineas :: "string list"
  fallo :: "excepcion option"

subsection \<open>Header detection\<close>

text \<open>
  The loop of \<open>detectar_lineas_encabezado\<close> over \<open>enumerate(f)\<close>, from the line with
  index \<open>i\<close> on: \<open>Some n\<close> when it returns \<open>n\<close> from inside the loop, \<open>None\<close> when the
  lines are exhausted.
\<close>

definition vacia :: "string \<Rightarrow> bool" where
  "vacia l \<longleftrightarrow> strip l = []"

definition primera_parte :: "string \<Rightarrow> string" where
  "primera_parte l = strip (primer_campo (strip l))"

text \<open>The first line of a file that \<open>linea.strip()\<close> does not leave empty.\<close>

definition primera_no_vacia :: "string list \<Rightarrow> string option" where
  "primera_no_vacia ls = find (\<lambda>l. \<not> vacia l) ls"

fun buscar_datos :: "nat \<Rightarrow> string list \<Rightarrow> int option" where
  "buscar_datos i [] = None"
| "buscar_datos i (l # ls) =
     (if strip l = [] then buscar_datos (Suc i) ls
      else if float_ok (primera_parte l) then Some (max 0 (int i - 1))
      else buscar_datos (Suc i) ls)"

definition detectar_en :: "archivo \<Rightarrow> excepcion + int" where
  "detectar_en f =
     (case buscar_datos 0 (lineas f) of
        Some n \<Rightarrow> Inr n
      | None \<Rightarrow> (case fallo f of Some e \<Rightarrow> Inl e | None \<Rightarrow> Inr 1))"

subsection \<open>Tables\<close>

text \<open>
  A cell of a pandas column: a text (a column of dtype \<open>object\<close>), a number, or the
  missing marker. A \<open>DataFrame\<close> is the list of its labelled columns, in order; labels
  may repeat. \<open>len(df.columns)\<close> is the length of that list and \<open>len(df)\<close>, the
  number of rows, is the length of its columns.
\<close>

datatype valor = Texto string | Numero real | NaN

type_synonym dataframe = "(string \<times> valor list) list"

definition etiquetas :: "dataframe \<Rightarrow> string list" where
  "etiquetas d = map fst d"

definition len_df :: "dataframe \<Rightarrow> nat" where
  "len_df d = (case d of [] \<Rightarrow> 0 | (_, s) # _ \<Rightarrow> length s)"

text \<open>\<open>df.isna().sum().sum()\<close>: the number of missing cells of the whole frame.\<close>

definition contar_nan :: "dataframe \<Rightarrow> nat" where
  "contar_nan d = sum_list (map (\<lambda>(_, s). length (filter (\<lambda>v. v = NaN) s)) d)"

text \<open>\<open>df[c]\<close>: the columns labelled \<open>c\<close>. One of them is a \<open>Series\<close>, several are a
  frame, none raises \<open>KeyError\<close>.\<close>

definition columnas_de :: "dataframe \<Rightarrow> string \<Rightarrow> dataframe" where
  "columnas_de d c = filter (\<lambda>(n, _). n = c) d"

text \<open>\<open>df[cs]\<close> for a list of labels: the columns of each label in the order of the
  list; \<open>KeyError\<close> when a label is not in the frame.\<close>

definition seleccionar :: "dataframe \<Rightarrow> string list \<Rightarrow> excepcion + dataframe" where
  "seleccionar d cs =
     (if \<forall>c \<in> set cs. c \<in> set (etiquetas d)
      then Inr (concat (map (columnas_de d) cs))
      else Inl (Exc ''KeyError'' ''not in index''))"

text \<open>\<open>df[c] = s\<close> for a label the frame has once: the column is replaced in place.\<close>

definition asignar :: "dataframe \<Rightarrow> string \<Rightarrow> valor list \<Rightarrow> dataframe" where
  "asignar d c s = map (\<lambda>(n, v). if n = c then (n, s) else (n, v)) d"

subsection \<open>The environment\<close>

text \<open>
  What the loader calls outside the class:
  \<^item> \<open>abrir ruta\<close> is \<open>open(ruta, 'r')\<close>;
  \<^item> \<open>read_csv ruta n\<close> is
    \<open>pd.read_csv(ruta, skiprows=n, header=0, delimiter=',', engine='python')\<close>;
  \<^item> \<open>a_numero v\<close> is what \<open>pd.to_numeric(..., errors='coerce')\<close> makes of the
    cell \<open>v\<close>.
\<close>

record entorno =
  abrir :: "string \<Rightarrow> excepcion + archivo"
  read_csv :: "string \<Rightarrow> int \<Rightarrow> excepcion + dataframe"
  a_numero :: "valor \<Rightarrow> valor"

subsection \<open>The class \<open>DataHandler\<close>\<close>

record DataHandler =
  df :: "dataframe option"
  archivo_actual :: "string option"

definition init :: DataHandler where
  "init = \<lparr>df = None, archivo_actual = None\<rparr>"

definition detectar_lineas_encabezado :: "entorno \<Rightarrow> string \<Rightarrow> excepcion + int" where
  "detectar_lineas_encabezado env ruta_archivo =
     (case abrir env ruta_archivo of Inl e \<Rightarrow> Inl e | Inr f \<Rightarrow> detectar_en f)"

text \<open>
  \<open>convertir_a_numerico\<close> walks \<open>df.columns\<close> and assigns to the frame it was given,
  so the frame is returned with the columns converted so far even when a step raises.
  \<open>pd.to_numeric\<close> wants a \<open>Series\<close>: on a label that the frame has twice, \<open>df[col]\<close>
  is a frame and the call raises \<open>TypeError\<close>.
\<close>

fun convertir_columnas ::
  "entorno \<Rightarrow> string list \<Rightarrow> dataframe \<Rightarrow> dataframe \<times> excepcion option" where
  "convertir_columnas env [] d = (d, None)"
| "convertir_columnas env (col # cols) d =
     (case columnas_de d col of
        [] \<Rightarrow> (d, Some (Exc ''KeyError'' col))
      | [(_, s)] \<Rightarrow> convertir_columnas env cols (asignar d col (map (a_numero env) s))
      | _ \<Rightarrow> (d, Some (Exc ''TypeError'' ''arg must be a list, tuple, 1-d array, or Series'')))"

definition convertir_a_numerico ::
  "entorno \<Rightarrow> dataframe \<Rightarrow> dataframe \<times> excepcion option" where
  "convertir_a_numerico env d = convertir_columnas env (etiquetas d) d"

text \<open>Decimal digits of a natural number, and \<open>f"{x:.1f}"\<close> for \<open>x \<ge> 0\<close>: \<open>x\<close> rounded to
  the nearest tenth, a tie to the even one.\<close>

definition digito :: "nat \<Rightarrow> char" where
  "digito n = ''0123456789'' ! n"

fun digitos :: "nat \<Rightarrow> string" where
  "digitos n = (if n < 10 then [digito n] else digitos (n div 10) @ [digito (n mod 10)])"

declare digitos.simps [simp del]

definition redondeo_par :: "real \<Rightarrow> int" where
  "redondeo_par x =
     (let n = \<lfloor>x\<rfloor>; r = x - of_int n
      in if r < 1 / 2 then n else if r > 1 / 2 then n + 1
         else if even n then n else n + 1)"

definition formato_1f :: "real \<Rightarrow> string" where
  "formato_1f x =
     (let t = nat (redondeo_par (x * 10))
      in digitos (t div 10) @ ''.'' @ digitos (t mod 10))"

text \<open>The exceptions \<open>validar_datos\<close> raises. The last message has the letter a with an
  acute accent, two bytes in UTF-8.\<close>

definition sin_tabla :: excepcion where
  "sin_tabla = Exc ''Exception'' ''No hay datos cargados''"

definition pocas_columnas :: excepcion where
  "pocas_columnas =
     Exc ''Exception'' ''El archivo debe tener al menos 2 columnas (tiempo y 1 canal)''"

definition sin_filas :: excepcion where
  "sin_filas = Exc ''Exception'' ''El archivo no contiene datos''"

definition demasiados_nan :: "real \<Rightarrow> excepcion" where
  "demasiados_nan p =
     Exc ''Exception''
       (''El archivo tiene demasiados valores inv'' @ [CHR 0xC3, CHR 0xA1] @ ''lidos (''
        @ formato_1f p @ ''%)'')"

definition division_por_cero :: excepcion where
  "division_por_cero = Exc ''ZeroDivisionError'' ''division by zero''"

text \<open>
  The quotient of line 138. numpy answers a divisor zero with \<open>nan\<close> or \<open>inf\<close> and a
  warning; here the divisor zero is kept apart as an exception of its own, so that
  reaching it shows in the result of \<open>validar_datos\<close>.
\<close>

definition porcentaje_nan :: "dataframe \<Rightarrow> excepcion + real" where
  "porcentaje_nan d =
     (if len_df d * length (etiquetas d) = 0 then Inl division_por_cero
      else Inr (real (contar_nan d) / real (len_df d * length (etiquetas d)) * 100))"

definition validar_datos :: "DataHandler \<Rightarrow> excepcion + unit" where
  "validar_datos h =
     (case df h of
        None \<Rightarrow> Inl sin_tabla
      | Some d \<Rightarrow>
          if length (etiquetas d) < 2 then Inl pocas_columnas
          else if len_df d = 0 then Inl sin_filas
          else (case porcentaje_nan d of
                  Inl e \<Rightarrow> Inl e
                | Inr p \<Rightarrow> if p > 50 then Inl (demasiados_nan p) else Inr ()))"

text \<open>The handler of line 62: a new \<open>Exception\<close> whose text is the prefix and \<open>str(e)\<close>.\<close>

definition envolver :: "excepcion \<Rightarrow> excepcion" where
  "envolver e = Exc ''Exception'' (''Error al cargar el archivo: '' @ mensaje e)"

text \<open>
  \<open>cargar_csv\<close> returns the handler as the call leaves it and what the call returns or
  raises. The assignments to \<open>self.archivo_actual\<close> and \<open>self.df\<close> are made where the
  source makes them; the detector is called before the \<open>try\<close>, so what it raises is
  not caught.
\<close>

definition cargar_csv ::
  "entorno \<Rightarrow> DataHandler \<Rightarrow> string \<Rightarrow> DataHandler \<times> (excepcion + dataframe)" where
  "cargar_csv env h ruta_archivo =
     (let h1 = h\<lparr>archivo_actual := Some ruta_archivo\<rparr>
      in case detectar_lineas_encabezado env ruta_archivo of
           Inl e \<Rightarrow> (h1, Inl e)
         | Inr skiprows \<Rightarrow>
             (case read_csv env ruta_archivo skiprows of
                Inl e \<Rightarrow> (h1, Inl (envolver e))
              | Inr d0 \<Rightarrow>
                  (let d1 = map (\<lambda>(n, s). (strip n, s)) d0
                   in case convertir_a_numerico env d1 of
                        (d2, Some e) \<Rightarrow> (h1\<lparr>df := Some d2\<rparr>, Inl (envolver e))
                      | (d2, None) \<Rightarrow>
                          (let h2 = h1\<lparr>df := Some d2\<rparr>
                           in case validar_datos h2 of
                                Inl e \<Rightarrow> (h2, Inl (envolver e))
                              | Inr u \<Rightarrow> (h2, Inr d2)))))"

subsection \<open>Statistics of a column\<close>













subsection \<open>Export\<close>

text \<open>
  \<open>exportar_datos_filtrados\<close> raises, or it calls \<open>to_csv(ruta_salida, index=False)\<close>
  on the selected frame: the result \<open>Inr (ruta, sel)\<close> is that call, the only output
  the method makes.
\<close>

definition sin_datos_exportar :: excepcion where
  "sin_datos_exportar = Exc ''Exception'' ''No hay datos para exportar''"

definition exportar_datos_filtrados ::
  "DataHandler \<Rightarrow> string list \<Rightarrow> string \<Rightarrow> excepcion + string \<times> dataframe" where
  "exportar_datos_filtrados h columnas ruta_salida =
     (case df h of
        None \<Rightarrow> Inl sin_datos_exportar
      | Some d \<Rightarrow>
          (case etiquetas d of
             [] \<Rightarrow> Inl (Exc ''IndexError'' ''index 0 is out of bounds for axis 0 with size 0'')
           | c0 # _ \<Rightarrow>
               (let columnas' = (if c0 \<notin> set columnas then [c0] @ columnas else columnas)
                in case seleccionar d columnas' of
                     Inl e \<Rightarrow> Inl e
                   | Inr sel \<Rightarrow> Inr (ruta_salida, sel))))"

subsection \<open>A plain CSV reader and writer\<close>

text \<open>
  An instance of the environment over a map from paths to files, for text without
  quoting: a comma always separates two fields. \<open>read_csv_plano\<close> follows what
  \<open>pd.read_csv\<close> does with \<open>engine='python'\<close>: the first \<open>n\<close> lines are dropped
  as they stand, then the lines without any content; the first line left is the
  header, where an empty name becomes \<open>Unnamed: i\<close> and a repeated name gets the
  suffix \<open>.k\<close>; a short row is filled with missing cells and a long one is an error
  (pandas takes the surplus of the first row as an index, which is not modelled). A
  field is read as \<open>NaN\<close> when it is one of the default missing markers and as a text
  otherwise: pandas already converts the columns it can, and the conversion of
  \<open>convertir_a_numerico\<close> makes the cells the same.
\<close>

fun partir :: "string \<Rightarrow> string list" where
  "partir [] = [[]]"
| "partir (c # cs) =
     (if c = CHR '','' then [] # partir cs
      else (case partir cs of [] \<Rightarrow> [[c]] | f # fs \<Rightarrow> (c # f) # fs))"


definition valores_na :: "string list" where
  "valores_na =
     [[], ''#N/A'', ''#N/A N/A'', ''#NA'', ''-1.#IND'', ''-1.#QNAN'', ''-NaN'', ''-nan'',
      ''1.#IND'', ''1.#QNAN'', ''<NA>'', ''N/A'', ''NA'', ''NULL'', ''NaN'', ''None'',
      ''n/a'', ''nan'', ''null'']"

definition celda :: "string \<Rightarrow> valor" where
  "celda s = (if s \<in> set valores_na then NaN else Texto s)"

definition sin_nombre :: "nat \<Rightarrow> string \<Rightarrow> string" where
  "sin_nombre i c = (if c = [] then ''Unnamed: '' @ digitos i else c)"

text \<open>
  The renaming of repeated names: \<open>cnt\<close> counts how often a name was given out. The
  inner loop of pandas runs while the candidate is taken; every round the candidate
  gets longer, so it ends within as many rounds as names were given out, the fuel
  \<open>k\<close>.
\<close>

fun nombre_libre :: "nat \<Rightarrow> (string \<Rightarrow> nat) \<Rightarrow> string \<Rightarrow> string \<times> (string \<Rightarrow> nat)" where
  "nombre_libre 0 cnt col = (col, cnt)"
| "nombre_libre (Suc k) cnt col =
     (if cnt col = 0 then (col, cnt)
      else nombre_libre k (cnt(col := cnt col + 1)) (col @ ''.'' @ digitos (cnt col)))"

fun renombrar :: "nat \<Rightarrow> (string \<Rightarrow> nat) \<Rightarrow> string list \<Rightarrow> string list" where
  "renombrar k cnt [] = []"
| "renombrar k cnt (c # cs) =
     (case nombre_libre k cnt c of
        (c', cnt') \<Rightarrow> c' # renombrar (Suc k) (cnt'(c' := cnt' c' + 1)) cs)"

definition nombres_de :: "string \<Rightarrow> string list" where
  "nombres_de cab =
     (let fs = partir cab
      in renombrar 0 (\<lambda>c. 0) (map (\<lambda>i. sin_nombre i (fs ! i)) [0..<length fs]))"

definition read_csv_plano ::
  "(string \<Rightarrow> excepcion + archivo) \<Rightarrow> string \<Rightarrow> int \<Rightarrow> excepcion + dataframe" where
  "read_csv_plano fs ruta n =
     (case fs ruta of
        Inl e \<Rightarrow> Inl e
      | Inr f \<Rightarrow>
          (case fallo f of
             Some e \<Rightarrow> Inl e
           | None \<Rightarrow>
               (case filter (\<lambda>l. \<not> vacia l) (drop (nat n) (lineas f)) of
                  [] \<Rightarrow> Inl (Exc ''EmptyDataError'' ''No columns to parse from file'')
                | cab # resto \<Rightarrow>
                    (let nombres = nombres_de cab; filas = map partir resto
                     in if \<exists>r \<in> set filas. length nombres < length r
                        then Inl (Exc ''ParserError'' ''Expected fewer fields'')
                        else Inr (map (\<lambda>j. (nombres ! j,
                                    map (\<lambda>r. if j < length r then celda (r ! j) else NaN) filas))
                                  [0..<length nombres])))))"

text \<open>The number a text denotes for pandas: a decimal literal with an optional sign,
  fraction and exponent; any other text has none and is coerced to \<open>NaN\<close>.\<close>

definition valor_digito :: "char \<Rightarrow> nat" where
  "valor_digito c = (case map_of (zip ''0123456789'' [0..<10]) c of Some n \<Rightarrow> n | None \<Rightarrow> 0)"

definition nat_de_digitos :: "string \<Rightarrow> nat" where
  "nat_de_digitos s = foldl (\<lambda>n c. 10 * n + valor_digito c) 0 s"

definition escalar :: "real \<Rightarrow> int \<Rightarrow> real" where
  "escalar x k = (if 0 \<le> k then x * 10 ^ nat k else x / 10 ^ nat (- k))"

definition numero_de_texto :: "string \<Rightarrow> real option" where
  "numero_de_texto s =
     (let t = strip s; u = sin_signo t;
          m = takeWhile (\<lambda>c. \<not> es_exp c) u; ex = drop (Suc (length m)) u;
          ent = takeWhile (\<lambda>c. c \<noteq> CHR ''.'') m; dec = drop (Suc (length ent)) m;
          k = (if take 1 ex = ''-'' then - int (nat_de_digitos (sin_signo ex))
               else int (nat_de_digitos (sin_signo ex)));
          x = escalar (real (nat_de_digitos (ent @ dec))) (k - int (length dec))
      in if decimal_ok u \<and> CHR ''_'' \<notin> set u
         then Some (if take 1 t = ''-'' then - x else x)
         else None)"

definition a_numero_plano :: "valor \<Rightarrow> valor" where
  "a_numero_plano v =
     (case v of
        Texto s \<Rightarrow> (case numero_de_texto s of Some x \<Rightarrow> Numero x | None \<Rightarrow> NaN)
      | Numero x \<Rightarrow> Numero x
      | NaN \<Rightarrow> NaN)"

definition entorno_plano :: "(string \<Rightarrow> excepcion + archivo) \<Rightarrow> entorno" where
  "entorno_plano fs = \<lparr>abrir = fs, read_csv = read_csv_plano fs, a_numero = a_numero_plano\<rparr>"

definition no_existe :: "string \<Rightarrow> excepcion" where
  "no_existe ruta =
     Exc ''FileNotFoundError'' (''[Errno 2] No such file or directory: '' @ ruta)"

definition disco :: "(string \<times> string list) list \<Rightarrow> string \<Rightarrow> excepcion + archivo" where
  "disco fs ruta =
     (case map_of fs ruta of
        None \<Rightarrow> Inl (no_existe ruta)
      | Some ls \<Rightarrow> Inr \<lparr>lineas = ls, fallo = None\<rparr>)"












section \<open>Properties\<close>

subsection \<open>Header detection\<close>

lemma buscar_datos_primera:
  assumes "primera_no_vacia ls = Some l" and "float_ok (primera_parte l)"
  shows "buscar_datos i ls = Some (max 0 (int (i + length (takeWhile vacia ls)) - 1))"
  using assms unfolding primera_no_vacia_def
proof (induction ls arbitrary: i)
  case Nil
  then show ?case by simp
next
  case (Cons a ls)
  show ?case
  proof (cases "vacia a")
    case True
    with Cons.prems have "find (\<lambda>l. \<not> vacia l) ls = Some l" by simp
    from Cons.IH [OF this Cons.prems(2), of "Suc i"] True
    show ?thesis by (simp add: vacia_def)
  next
    case False
    with Cons.prems have "a = l" by simp
    with False Cons.prems(2) show ?thesis by (simp add: vacia_def)
  qed
qed

lemma buscar_datos_ninguna:
  "\<forall>l \<in> set ls. \<not> float_ok (primera_parte l) \<Longrightarrow> buscar_datos i ls = None"
  by (induction ls arbitrary: i) simp_all

text \<open>
  Claim C3, as amended. When the file opens and its first line with content, found
  after \<open>b\<close> empty lines, has a leading field that \<open>float\<close> accepts, the detector
  returns \<open>max(0, b - 1)\<close>, the index of that line less one: it returns 0 exactly
  when at most one empty line comes before it.
\<close>

theorem detectar_primera_con_numero:
  assumes "abrir env ruta = Inr f"
    and "primera_no_vacia (lineas f) = Some l"
    and "float_ok (primera_parte l)"
  shows "detectar_lineas_encabezado env ruta
           = Inr (max 0 (int (length (takeWhile vacia (lineas f))) - 1))
         \<and> (detectar_lineas_encabezado env ruta = Inr 0
              \<longleftrightarrow> length (takeWhile vacia (lineas f)) \<le> 1)"
proof -
  from buscar_datos_primera [OF assms(2,3), of 0]
  have "buscar_datos 0 (lineas f)
          = Some (max 0 (int (length (takeWhile vacia (lineas f))) - 1))"
    by simp
  with assms(1)
  have r: "detectar_lineas_encabezado env ruta
             = Inr (max 0 (int (length (takeWhile vacia (lineas f))) - 1))"
    by (simp add: detectar_lineas_encabezado_def detectar_en_def)
  then show ?thesis by auto
qed

theorem detectar_primera_con_numero_witness:
  "primera_no_vacia ['' '', ''0.5,1'', ''1.0,2''] = Some ''0.5,1''
   \<and> float_ok (primera_parte ''0.5,1'')
   \<and> detectar_lineas_encabezado
        (entorno_plano (disco [(''a.csv'', ['' '', ''0.5,1'', ''1.0,2''])])) ''a.csv'' = Inr 0"
proof -
  have a: "abrir (entorno_plano (disco [(''a.csv'', ['' '', ''0.5,1'', ''1.0,2''])])) ''a.csv''
             = Inr \<lparr>lineas = ['' '', ''0.5,1'', ''1.0,2''], fallo = None\<rparr>"
    by code_simp
  have b: "primera_no_vacia (lineas \<lparr>lineas = ['' '', ''0.5,1'', ''1.0,2''], fallo = None\<rparr>)
             = Some ''0.5,1''"
    by code_simp
  have c: "float_ok (primera_parte ''0.5,1'')"
    by code_simp
  have d: "length (takeWhile vacia (lineas \<lparr>lineas = ['' '', ''0.5,1'', ''1.0,2''], fallo = None\<rparr>))
             \<le> 1"
    by code_simp
  from detectar_primera_con_numero [OF a b c] d
  have "detectar_lineas_encabezado
          (entorno_plano (disco [(''a.csv'', ['' '', ''0.5,1'', ''1.0,2''])])) ''a.csv'' = Inr 0"
    by blast
  with b c show ?thesis by simp
qed

text \<open>
  Claim C3 as stated fails: with two empty lines before the first numeric line the
  detector returns 1, not 0.
\<close>

theorem detectar_dos_lineas_vacias:
  "primera_no_vacia ['''', '''', ''1.5,2''] = Some ''1.5,2''
   \<and> float_ok (primera_parte ''1.5,2'')
   \<and> detectar_lineas_encabezado
        (entorno_plano (disco [(''a.csv'', ['''', '''', ''1.5,2''])])) ''a.csv'' = Inr 1
   \<and> detectar_lineas_encabezado
        (entorno_plano (disco [(''a.csv'', ['''', '''', ''1.5,2''])])) ''a.csv'' \<noteq> Inr 0"
  by code_simp

text \<open>
  Claim C7. When the file opens, is read to its end, and no line of it has a leading
  field that \<open>float\<close> accepts, the detector returns the default 1.
\<close>

theorem detectar_sin_numeros:
  assumes "abrir env ruta = Inr f"
    and "fallo f = None"
    and "\<forall>l \<in> set (lineas f). \<not> float_ok (primera_parte l)"
  shows "detectar_lineas_encabezado env ruta = Inr 1"
  using assms buscar_datos_ninguna [OF assms(3), of 0]
  by (simp add: detectar_lineas_encabezado_def detectar_en_def)

theorem detectar_sin_numeros_witness:
  "\<not> float_ok (primera_parte ''Tiempo,Canal 1'')
   \<and> \<not> float_ok (primera_parte [])
   \<and> \<not> float_ok (primera_parte ''a,b'')
   \<and> detectar_lineas_encabezado
        (entorno_plano (disco [(''a.csv'', [''Tiempo,Canal 1'', '''', ''a,b''])])) ''a.csv'' = Inr 1"
proof -
  have a: "abrir (entorno_plano (disco [(''a.csv'', [''Tiempo,Canal 1'', '''', ''a,b''])])) ''a.csv''
             = Inr \<lparr>lineas = [''Tiempo,Canal 1'', '''', ''a,b''], fallo = None\<rparr>"
    by code_simp
  have b: "fallo \<lparr>lineas = [''Tiempo,Canal 1'', '''', ''a,b''], fallo = None\<rparr> = None"
    by simp
  have c: "\<forall>l \<in> set (lineas \<lparr>lineas = [''Tiempo,Canal 1'', '''', ''a,b''], fallo = None\<rparr>).
             \<not> float_ok (primera_parte l)"
    by code_simp
  from detectar_sin_numeros [OF a b c] c show ?thesis by simp
qed

subsection \<open>Validation\<close>

lemma porcentaje_mayor:
  assumes "0 < m"
  shows "real k / real m * 100 > 50 \<longleftrightarrow> m < 2 * k"
proof -
  from assms have "real k / real m * 100 > 50 \<longleftrightarrow> real k * 100 > 50 * real m"
    by (simp add: field_simps)
  also have "\<dots> \<longleftrightarrow> real (100 * k) > real (50 * m)" by simp
  also have "\<dots> \<longleftrightarrow> 100 * k > 50 * m" by (simp only: of_nat_less_iff)
  also have "\<dots> \<longleftrightarrow> m < 2 * k" by arith
  finally show ?thesis .
qed

lemma validar_datos_tabla:
  assumes "df h = Some d"
  shows "validar_datos h =
     (if length (etiquetas d) < 2 then Inl pocas_columnas
      else if len_df d = 0 then Inl sin_filas
      else if len_df d * length (etiquetas d) < 2 * contar_nan d
           then Inl (demasiados_nan
                  (real (contar_nan d) / real (len_df d * length (etiquetas d)) * 100))
           else Inr ())"
proof -
  have "0 < len_df d * length (etiquetas d)"
    if "\<not> length (etiquetas d) < 2" "len_df d \<noteq> 0"
    using that by (cases "etiquetas d") simp_all
  then show ?thesis
    using assms porcentaje_mayor [of "len_df d * length (etiquetas d)" "contar_nan d"]
    by (auto simp: validar_datos_def porcentaje_nan_def simp del: of_nat_mult)
qed

lemma excepciones_distintas:
  "sin_tabla \<noteq> division_por_cero" "pocas_columnas \<noteq> division_por_cero"
  "sin_filas \<noteq> division_por_cero" "demasiados_nan p \<noteq> division_por_cero"
  by (simp_all add: sin_tabla_def pocas_columnas_def sin_filas_def demasiados_nan_def
      division_por_cero_def)

text \<open>
  Claim C9. \<open>validar_datos\<close> never divides by zero: whenever it gets past the checks
  of the columns and of the rows, and so computes the quotient, the table has at least
  two columns and one row, the divisor rows times columns is not zero, and the quotient
  is the percentage of missing cells.
\<close>

theorem validar_datos_division:
  "validar_datos h \<noteq> Inl division_por_cero
   \<and> (\<forall>d. df h = Some d \<and> validar_datos h \<noteq> Inl pocas_columnas
            \<and> validar_datos h \<noteq> Inl sin_filas
        \<longrightarrow> 2 \<le> length (etiquetas d) \<and> 1 \<le> len_df d
            \<and> len_df d * length (etiquetas d) \<noteq> 0
            \<and> porcentaje_nan d
                = Inr (real (contar_nan d) / real (len_df d * length (etiquetas d)) * 100))"
proof (intro conjI allI impI)
  show "validar_datos h \<noteq> Inl division_por_cero"
  proof (cases "df h")
    case None
    then show ?thesis by (simp add: validar_datos_def excepciones_distintas)
  next
    case (Some d)
    then show ?thesis by (simp add: validar_datos_tabla excepciones_distintas)
  qed
next
  fix d
  assume a: "df h = Some d \<and> validar_datos h \<noteq> Inl pocas_columnas
               \<and> validar_datos h \<noteq> Inl sin_filas"
  then have c: "\<not> length (etiquetas d) < 2"
    by (auto simp: validar_datos_tabla)
  with a have r: "len_df d \<noteq> 0"
    by (auto simp: validar_datos_tabla split: if_splits)
  from c show "2 \<le> length (etiquetas d)" by simp
  from r show "1 \<le> len_df d" by simp
  from c r show z: "len_df d * length (etiquetas d) \<noteq> 0"
    by (cases "etiquetas d") simp_all
  then show "porcentaje_nan d
               = Inr (real (contar_nan d) / real (len_df d * length (etiquetas d)) * 100)"
    by (simp add: porcentaje_nan_def)
qed

theorem validar_datos_division_witness:
  "validar_datos \<lparr>df = Some [(''t'', [Numero 0, NaN]), (''ch1'', [Numero 1, NaN])],
                  archivo_actual = None\<rparr> = Inr ()
   \<and> porcentaje_nan [(''t'', [Numero 0, NaN]), (''ch1'', [Numero 1, NaN])] = Inr 50"
proof -
  let ?d = "[(''t'', [Numero 0, NaN]), (''ch1'', [Numero 1, NaN])]"
  let ?h = "\<lparr>df = Some ?d, archivo_actual = None\<rparr>"
  have v: "validar_datos ?h = Inr ()" by code_simp
  have a: "df ?h = Some ?d \<and> validar_datos ?h \<noteq> Inl pocas_columnas
             \<and> validar_datos ?h \<noteq> Inl sin_filas"
    by (simp add: v)
  have e: "real (contar_nan ?d) / real (len_df ?d * length (etiquetas ?d)) * 100 = 50"
    by code_simp
  from validar_datos_division [of ?h] a
  have "porcentaje_nan ?d
          = Inr (real (contar_nan ?d) / real (len_df ?d * length (etiquetas ?d)) * 100)"
    by blast
  with e v show ?thesis by simp
qed

subsection \<open>Decimal digits\<close>

lemma digito_menor:
  assumes "n < 10"
  shows "es_digito (digito n)" and "valor_digito (digito n) = n"
proof -
  from assms have "n \<in> {0, 1, 2, 3, 4, 5, 6, 7, 8, 9}" by auto
  then show "es_digito (digito n)" and "valor_digito (digito n) = n"
    by (auto simp: es_digito_def digito_def valor_digito_def upt_rec)
qed

lemma es_digito_otros:
  assumes "es_digito c"
  shows "\<not> es_espacio c" "c \<noteq> CHR ''.''" "\<not> es_exp c" "c \<noteq> CHR ''_''"
    "c \<noteq> CHR ''+''" "c \<noteq> CHR ''-''" "c \<noteq> CHR '',''"
  using assms by (auto simp: es_digito_def es_espacio_def es_exp_def)

lemma digitos_no_vacio: "digitos n \<noteq> []"
  by (subst digitos.simps) simp

lemma digitos_son_digitos: "c \<in> set (digitos n) \<Longrightarrow> es_digito c"
proof (induction n arbitrary: c rule: digitos.induct)
  case (1 n)
  show ?case
  proof (cases "n < 10")
    case True
    with "1.prems" show ?thesis
      by (subst (asm) digitos.simps) (simp add: digito_menor)
  next
    case False
    with "1.prems" have "c \<in> set (digitos (n div 10)) \<or> c = digito (n mod 10)"
      by (subst (asm) digitos.simps) auto
    with False "1.IH" show ?thesis
      by (auto simp: digito_menor)
  qed
qed



lemma digitos_ok_todos:
  "s \<noteq> [] \<Longrightarrow> \<forall>c \<in> set s. es_digito c \<Longrightarrow> digitos_ok s"
  by (induction s rule: digitos_ok.induct) (auto simp: es_digito_otros)

lemma digitos_ok_digitos: "digitos_ok (digitos n)"
  by (rule digitos_ok_todos) (auto simp: digitos_no_vacio digitos_son_digitos)




subsection \<open>Loading\<close>

lemma cargar_csv_tras_leer:
  assumes "detectar_lineas_encabezado env ruta = Inr n"
    and "read_csv env ruta n = Inr d0"
    and "convertir_a_numerico env (map (\<lambda>(c, s). (strip c, s)) d0) = (d, None)"
  shows "cargar_csv env h ruta =
     (h\<lparr>archivo_actual := Some ruta, df := Some d\<rparr>,
      case validar_datos (h\<lparr>archivo_actual := Some ruta, df := Some d\<rparr>) of
        Inl e \<Rightarrow> Inl (envolver e) | Inr u \<Rightarrow> Inr d)"
  using assms by (simp add: cargar_csv_def Let_def split: sum.splits)




text \<open>
  Claim C1, as amended. After a call of \<open>cargar_csv\<close> that raises,
  \<open>self.archivo_actual\<close> is the path of that call. \<open>self.df\<close> is what it was before
  when the detector or \<open>read_csv\<close> raised; when the file was parsed and coerced and the
  validation raised, \<open>self.df\<close> is the table just parsed.
\<close>

theorem cargar_csv_fallo_estado:
  assumes "cargar_csv env h ruta = (h', Inl e)"
  shows "archivo_actual h' = Some ruta
         \<and> (isl (detectar_lineas_encabezado env ruta) \<longrightarrow> df h' = df h)
         \<and> (\<forall>n. detectar_lineas_encabezado env ruta = Inr n \<and> isl (read_csv env ruta n)
                \<longrightarrow> df h' = df h)
         \<and> (\<forall>n d0 d. detectar_lineas_encabezado env ruta = Inr n
                  \<and> read_csv env ruta n = Inr d0
                  \<and> convertir_a_numerico env (map (\<lambda>(c, s). (strip c, s)) d0) = (d, None)
                \<longrightarrow> df h' = Some d
                    \<and> (\<exists>e'. validar_datos h' = Inl e' \<and> e = envolver e'))"
proof (intro conjI allI impI)
  show "archivo_actual h' = Some ruta"
    using assms
    by (auto simp: cargar_csv_def Let_def split: sum.splits prod.splits option.splits)
next
  assume "isl (detectar_lineas_encabezado env ruta)"
  then show "df h' = df h"
    using assms by (auto simp: cargar_csv_def Let_def isl_def)
next
  fix n
  assume "detectar_lineas_encabezado env ruta = Inr n \<and> isl (read_csv env ruta n)"
  then show "df h' = df h"
    using assms by (auto simp: cargar_csv_def Let_def isl_def)
next
  fix n d0 d
  assume a: "detectar_lineas_encabezado env ruta = Inr n
               \<and> read_csv env ruta n = Inr d0
               \<and> convertir_a_numerico env (map (\<lambda>(c, s). (strip c, s)) d0) = (d, None)"
  then have a1: "detectar_lineas_encabezado env ruta = Inr n"
    and a2: "read_csv env ruta n = Inr d0"
    and a3: "convertir_a_numerico env (map (\<lambda>(c, s). (strip c, s)) d0) = (d, None)"
    by simp_all
  have c: "cargar_csv env h ruta =
     (h\<lparr>archivo_actual := Some ruta, df := Some d\<rparr>,
      case validar_datos (h\<lparr>archivo_actual := Some ruta, df := Some d\<rparr>) of
        Inl e \<Rightarrow> Inl (envolver e) | Inr u \<Rightarrow> Inr d)"
    by (rule cargar_csv_tras_leer [OF a1 a2 a3])
  with assms have h': "h' = h\<lparr>archivo_actual := Some ruta, df := Some d\<rparr>"
    by simp
  then show "df h' = Some d" by simp
  from c assms h' show "\<exists>e'. validar_datos h' = Inl e' \<and> e = envolver e'"
    by (cases "validar_datos h'") auto
qed

theorem cargar_csv_fallo_estado_witness:
  "cargar_csv (entorno_plano (disco [(''a.csv'', [''t'', ''1'', ''2''])]))
     \<lparr>df = Some [(''t'', [Numero 0]), (''v'', [Numero 5])], archivo_actual = Some ''b.csv''\<rparr>
     ''a.csv''
     = (\<lparr>df = Some [(''t'', [Numero 1, Numero 2])], archivo_actual = Some ''a.csv''\<rparr>,
        Inl (envolver pocas_columnas))
   \<and> archivo_actual \<lparr>df = Some [(''t'', [Numero 1, Numero 2])],
                      archivo_actual = Some ''a.csv''\<rparr> = Some ''a.csv''"
proof -
  let ?env = "entorno_plano (disco [(''a.csv'', [''t'', ''1'', ''2''])])"
  let ?h = "\<lparr>df = Some [(''t'', [Numero 0]), (''v'', [Numero 5])],
             archivo_actual = Some ''b.csv''\<rparr>"
  let ?h' = "\<lparr>df = Some [(''t'', [Numero 1, Numero 2])], archivo_actual = Some ''a.csv''\<rparr>"
  have a: "cargar_csv ?env ?h ''a.csv'' = (?h', Inl (envolver pocas_columnas))"
    by code_simp
  from cargar_csv_fallo_estado [OF a] have "archivo_actual ?h' = Some ''a.csv''"
    by blast
  with a show ?thesis by blast
qed

text \<open>
  Claim C1 as stated fails: a load of a file that does not exist replaces the
  remembered path, and a load that fails in validation replaces the table.
\<close>

theorem cargar_csv_fallo_cambia_estado:
  "cargar_csv (entorno_plano (disco []))
     \<lparr>df = Some [(''t'', [Numero 0]), (''v'', [Numero 5])], archivo_actual = Some ''b.csv''\<rparr>
     ''no.csv''
     = (\<lparr>df = Some [(''t'', [Numero 0]), (''v'', [Numero 5])],
         archivo_actual = Some ''no.csv''\<rparr>,
        Inl (no_existe ''no.csv''))
   \<and> cargar_csv (entorno_plano (disco [(''a.csv'', [''t'', ''1'', ''2''])]))
     \<lparr>df = Some [(''t'', [Numero 0]), (''v'', [Numero 5])], archivo_actual = Some ''b.csv''\<rparr>
     ''a.csv''
     = (\<lparr>df = Some [(''t'', [Numero 1, Numero 2])], archivo_actual = Some ''a.csv''\<rparr>,
        Inl (envolver pocas_columnas))"
  by code_simp

text \<open>
  Claim C4, on the code. An exception of the header detector, which is the first to
  open the file, leaves \<open>cargar_csv\<close> as it is: the call is made before the \<open>try\<close>.
  Only what \<open>read_csv\<close> raises is wrapped, with its message kept after the prefix.
\<close>

theorem cargar_csv_fallo_lectura:
  "(abrir env ruta = Inl e \<longrightarrow> snd (cargar_csv env h ruta) = Inl e)
   \<and> (detectar_lineas_encabezado env ruta = Inl e \<longrightarrow> snd (cargar_csv env h ruta) = Inl e)
   \<and> (detectar_lineas_encabezado env ruta = Inr n \<and> read_csv env ruta n = Inl e
        \<longrightarrow> snd (cargar_csv env h ruta) = Inl (envolver e)
            \<and> clase (envolver e) = ''Exception''
            \<and> mensaje (envolver e) = ''Error al cargar el archivo: '' @ mensaje e)"
  by (simp add: cargar_csv_def Let_def detectar_lineas_encabezado_def envolver_def)

theorem cargar_csv_fallo_lectura_witness:
  "snd (cargar_csv (entorno_plano (disco [])) init ''no.csv'') = Inl (no_existe ''no.csv'')
   \<and> clase (no_existe ''no.csv'') = ''FileNotFoundError''
   \<and> no_existe ''no.csv'' \<noteq> envolver (no_existe ''no.csv'')"
proof -
  have a: "abrir (entorno_plano (disco [])) ''no.csv'' = Inl (no_existe ''no.csv'')"
    by code_simp
  from cargar_csv_fallo_lectura [of "entorno_plano (disco [])" "''no.csv''"
      "no_existe ''no.csv''" init] a
  have "snd (cargar_csv (entorno_plano (disco [])) init ''no.csv'') = Inl (no_existe ''no.csv'')"
    by blast
  moreover have "clase (no_existe ''no.csv'') = ''FileNotFoundError''"
    by (simp add: no_existe_def)
  moreover have "no_existe ''no.csv'' \<noteq> envolver (no_existe ''no.csv'')"
    by (simp add: no_existe_def envolver_def)
  ultimately show ?thesis by blast
qed

subsection \<open>Statistics\<close>

lemma columnas_de_unica:
  "distinct (etiquetas d) \<Longrightarrow> (c, s) \<in> set d \<Longrightarrow> columnas_de d c = [(c, s)]"
proof (induction d)
  case Nil
  then show ?case by simp
next
  case (Cons a d)
  obtain n v where a: "a = (n, v)" by (cases a)
  show ?case
  proof (cases "n = c")
    case True
    with Cons.prems a have "s = v"
      by (auto simp: etiquetas_def rev_image_eqI)
    moreover from True Cons.prems a have "filter (\<lambda>(m, _). m = c) d = []"
      by (auto simp: etiquetas_def filter_empty_conv rev_image_eqI)
    ultimately show ?thesis using True a by (simp add: columnas_de_def)
  next
    case False
    with Cons a show ?thesis by (auto simp: columnas_de_def etiquetas_def)
  qed
qed














subsection \<open>Export\<close>

lemma columnas_de_no_vacia: "c \<in> set (etiquetas d) \<Longrightarrow> columnas_de d c \<noteq> []"
  by (auto simp: columnas_de_def etiquetas_def filter_empty_conv)

lemma columnas_de_etiqueta: "(n, s) \<in> set (columnas_de d c) \<Longrightarrow> n = c"
  by (auto simp: columnas_de_def)

lemma seleccionar_etiquetas:
  assumes "distinct (etiquetas d)" "set cs \<subseteq> set (etiquetas d)"
  shows "etiquetas (concat (map (columnas_de d) cs)) = cs"
  using assms(2)
proof (induction cs)
  case Nil
  then show ?case by (simp add: etiquetas_def)
next
  case (Cons c cs)
  then obtain s where "(c, s) \<in> set d"
    by (auto simp: etiquetas_def)
  from columnas_de_unica [OF assms(1) this] Cons show ?case
    by (simp add: etiquetas_def)
qed

text \<open>
  Claim C6. Without a table \<open>exportar_datos_filtrados\<close> raises and writes nothing.
  With a table, for a list of columns of the table that leaves its first column out,
  it writes a frame whose first column is the first column of the table, followed by
  the requested columns: with distinct labels the labels written are the first one and
  then the requested ones in their order.
\<close>

theorem exportar_incluye_primera:
  "(df h = None \<longrightarrow> exportar_datos_filtrados h columnas ruta = Inl sin_datos_exportar)
   \<and> (\<forall>c0 s0 resto.
         df h = Some ((c0, s0) # resto) \<and> c0 \<notin> set columnas
         \<and> set columnas \<subseteq> set (etiquetas ((c0, s0) # resto))
        \<longrightarrow> (\<exists>sel. exportar_datos_filtrados h columnas ruta = Inr (ruta, (c0, s0) # sel)
              \<and> (distinct (etiquetas ((c0, s0) # resto))
                   \<longrightarrow> etiquetas ((c0, s0) # sel) = c0 # columnas)))"
proof (intro conjI allI impI)
  assume "df h = None"
  then show "exportar_datos_filtrados h columnas ruta = Inl sin_datos_exportar"
    by (simp add: exportar_datos_filtrados_def)
next
  fix c0 :: string and s0 :: "valor list" and resto :: dataframe
  let ?d = "(c0, s0) # resto"
  assume a: "df h = Some ?d \<and> c0 \<notin> set columnas \<and> set columnas \<subseteq> set (etiquetas ?d)"
  define sel where
    "sel = filter (\<lambda>(n, _). n = c0) resto @ concat (map (columnas_de ?d) columnas)"
  have s: "concat (map (columnas_de ?d) (c0 # columnas)) = (c0, s0) # sel"
    by (simp add: sel_def columnas_de_def)
  from a have e: "exportar_datos_filtrados h columnas ruta
                    = Inr (ruta, concat (map (columnas_de ?d) (c0 # columnas)))"
    by (auto simp: exportar_datos_filtrados_def seleccionar_def etiquetas_def)
  have "etiquetas ((c0, s0) # sel) = c0 # columnas" if "distinct (etiquetas ?d)"
  proof -
    from a have "set (c0 # columnas) \<subseteq> set (etiquetas ?d)"
      by (simp add: etiquetas_def)
    from seleccionar_etiquetas [OF that this] s show ?thesis by simp
  qed
  with e s
  show "\<exists>sel. exportar_datos_filtrados h columnas ruta = Inr (ruta, (c0, s0) # sel)
          \<and> (distinct (etiquetas ?d) \<longrightarrow> etiquetas ((c0, s0) # sel) = c0 # columnas)"
    by auto
qed

theorem exportar_incluye_primera_witness:
  "exportar_datos_filtrados
     \<lparr>df = Some [(''t'', [Numero 0, Numero 1]), (''a'', [Numero 2, NaN]),
                 (''b'', [Numero 3, Numero 4])],
      archivo_actual = Some ''e.csv''\<rparr> [''b''] ''s.csv''
   = Inr (''s.csv'', [(''t'', [Numero 0, Numero 1]), (''b'', [Numero 3, Numero 4])])"
proof -
  let ?r = "[(''a'', [Numero 2, NaN]), (''b'', [Numero 3, Numero 4])]"
  let ?d = "(''t'', [Numero 0, Numero 1]) # ?r"
  let ?h = "\<lparr>df = Some ?d, archivo_actual = Some ''e.csv''\<rparr>"
  have a: "df ?h = Some ?d \<and> ''t'' \<notin> set [''b''] \<and> set [''b''] \<subseteq> set (etiquetas ?d)"
    by (simp add: etiquetas_def)
  from exportar_incluye_primera [of ?h "[''b'']" "''s.csv''"] a
  obtain sel where
    "exportar_datos_filtrados ?h [''b''] ''s.csv'' = Inr (''s.csv'', (''t'', [Numero 0, Numero 1]) # sel)"
    by blast
  moreover have "exportar_datos_filtrados ?h [''b''] ''s.csv''
      = Inr (''s.csv'', [(''t'', [Numero 0, Numero 1]), (''b'', [Numero 3, Numero 4])])"
    by code_simp
  ultimately show ?thesis by simp
qed

text \<open>
  Claim C10. When the requested list has the first column of the table, but not in
  front, the columns are written in the requested order: the frame written is the
  requested columns one after the other, its first column is not the first column of
  the table, and with distinct labels the labels written are the list as requested.
\<close>

theorem exportar_orden_pedido:
  assumes "df h = Some ((c0, s0) # resto)"
    and "c0 \<in> set columnas"
    and "hd columnas \<noteq> c0"
    and "set columnas \<subseteq> set (etiquetas ((c0, s0) # resto))"
  shows "exportar_datos_filtrados h columnas ruta
           = Inr (ruta, concat (map (columnas_de ((c0, s0) # resto)) columnas))
         \<and> hd (etiquetas (concat (map (columnas_de ((c0, s0) # resto)) columnas))) = hd columnas
         \<and> hd (etiquetas (concat (map (columnas_de ((c0, s0) # resto)) columnas))) \<noteq> c0
         \<and> (distinct (etiquetas ((c0, s0) # resto))
              \<longrightarrow> etiquetas (concat (map (columnas_de ((c0, s0) # resto)) columnas)) = columnas)"
proof -
  let ?d = "(c0, s0) # resto"
  from assms(1,2,4) have e: "exportar_datos_filtrados h columnas ruta
                    = Inr (ruta, concat (map (columnas_de ?d) columnas))"
    by (auto simp: exportar_datos_filtrados_def seleccionar_def etiquetas_def)
  from assms(2) obtain c cs where c: "columnas = c # cs" by (cases columnas) auto
  with assms(4) have "columnas_de ?d c \<noteq> []"
    by (intro columnas_de_no_vacia) simp
  then obtain n s r where k: "columnas_de ?d c = (n, s) # r"
    by (cases "columnas_de ?d c") auto
  then have "(n, s) \<in> set (columnas_de ?d c)" by simp
  then have "n = c" by (rule columnas_de_etiqueta)
  with k c have f: "hd (etiquetas (concat (map (columnas_de ?d) columnas))) = hd columnas"
    by (simp add: etiquetas_def)
  have "etiquetas (concat (map (columnas_de ?d) columnas)) = columnas"
    if "distinct (etiquetas ?d)"
    by (rule seleccionar_etiquetas [OF that assms(4)])
  with e f assms(3) show ?thesis by simp
qed

theorem exportar_orden_pedido_witness:
  "exportar_datos_filtrados
     \<lparr>df = Some [(''t'', [Numero 0, Numero 1]), (''a'', [Numero 2, NaN]),
                 (''b'', [Numero 3, Numero 4])],
      archivo_actual = Some ''e.csv''\<rparr> [''b'', ''t''] ''s.csv''
   = Inr (''s.csv'', [(''b'', [Numero 3, Numero 4]), (''t'', [Numero 0, Numero 1])])"
proof -
  let ?r = "[(''a'', [Numero 2, NaN]), (''b'', [Numero 3, Numero 4])]"
  let ?d = "(''t'', [Numero 0, Numero 1]) # ?r"
  let ?h = "\<lparr>df = Some ?d, archivo_actual = Some ''e.csv''\<rparr>"
  have a: "df ?h = Some ?d" by simp
  have b: "''t'' \<in> set [''b'', ''t'']" by simp
  have c: "hd [''b'', ''t''] \<noteq> ''t''" by simp
  have d: "set [''b'', ''t''] \<subseteq> set (etiquetas ?d)" by (simp add: etiquetas_def)
  have "concat (map (columnas_de ?d) [''b'', ''t''])
          = [(''b'', [Numero 3, Numero 4]), (''t'', [Numero 0, Numero 1])]"
    by code_simp
  with exportar_orden_pedido [OF a b c d, of "''s.csv''"] show ?thesis by simp
qed

subsection \<open>Round trip of export and load\<close>
































end
